theory Spec2Isabelle
  imports Complex_Main "HOL-Library.Word"
begin

section \<open>Shared types\<close>

text \<open>
  Identifiers are UUIDs rendered as text (\<open>str(tenant_id)\<close>); calendar dates are
  proleptic ordinals (\<open>date.toordinal()\<close>), so that \<open>\<le>\<close> and \<open><\<close> are the date order
  the SQL comparisons use. Wall-clock time (\<open>time.time()\<close>) is a real number of seconds.
\<close>

type_synonym uuid = string
type_synonym date = int

text \<open>
  Every \<open>raise HTTPException(status_code=..., detail=...)\<close> of the handlers is the value
  \<open>HTTPException status detail\<close>. A failing call to the retrieval/LLM provider raises
  whatever the provider's client raises; it is \<open>UpstreamFailure\<close> with the provider's
  message. \<open>scalar_one_or_none()\<close> raises \<open>MultipleResultsFound\<close> on more than one row.
\<close>

datatype error =
    HTTPException nat string
  | UpstreamFailure string
  | MultipleResultsFound

text \<open>Python truthiness of an optional string: \<open>None\<close> and \<open>""\<close> are falsy.\<close>

fun truthy :: "string option \<Rightarrow> bool" where
  "truthy None = False"
| "truthy (Some s) = (s \<noteq> [])"

section \<open>The shared counter store (Redis)\<close>

text \<open>
  \<open>services/limits.py\<close> builds two kinds of keys: \<open>f"rl:{tenant_id}:{minute_window}"\<close> and
  \<open>f"idemp:{tenant_id}:{key}"\<close>. The tenant is a 36-character UUID string, so both
  formats are injective in their components and the two prefixes never collide; a key is
  therefore the constructor with its components. The only values the program stores are
  counters and the string \<open>"1"\<close>, which Redis holds as the integer 1. An entry carries
  its value and, when one was set, the absolute time at which it expires.
\<close>

datatype redis_key = RL uuid int | IDEMP uuid string

type_synonym redis = "redis_key \<Rightarrow> (int \<times> real option) option"

definition redis_get :: "real \<Rightarrow> redis \<Rightarrow> redis_key \<Rightarrow> (int \<times> real option) option" where
  "redis_get now r k =
     (case r k of
        None \<Rightarrow> None
      | Some (v, None) \<Rightarrow> Some (v, None)
      | Some (v, Some t) \<Rightarrow> (if now < t then Some (v, Some t) else None))"

definition redis_incr :: "real \<Rightarrow> redis_key \<Rightarrow> redis \<Rightarrow> int \<times> redis" where
  "redis_incr now k r =
     (case redis_get now r k of
        None \<Rightarrow> (1, r(k \<mapsto> (1, None)))
      | Some (v, e) \<Rightarrow> (v + 1, r(k \<mapsto> (v + 1, e))))"

definition redis_expire :: "real \<Rightarrow> redis_key \<Rightarrow> real \<Rightarrow> redis \<Rightarrow> redis" where
  "redis_expire now k seconds r =
     (case redis_get now r k of
        None \<Rightarrow> r
      | Some (v, e) \<Rightarrow> r(k \<mapsto> (v, Some (now + seconds))))"

text \<open>\<open>client.set(key, value, ex=seconds, nx=True)\<close>: set only if the key is absent.\<close>

definition redis_set_nx_ex :: "real \<Rightarrow> redis_key \<Rightarrow> int \<Rightarrow> real \<Rightarrow> redis \<Rightarrow> bool \<times> redis" where
  "redis_set_nx_ex now k v seconds r =
     (case redis_get now r k of
        Some e \<Rightarrow> (False, r)
      | None \<Rightarrow> (True, r(k \<mapsto> (v, Some (now + seconds)))))"

section \<open>Rate limiting and idempotency (\<open>services/limits.py\<close>)\<close>

record settings =
  RATE_LIMIT_RPM :: int
  OPENAI_MODEL_DEFAULT :: string

definition minute_window :: "real \<Rightarrow> int" where
  "minute_window now = \<lfloor>now / 60\<rfloor>"

definition check_rate_limit :: "settings \<Rightarrow> real \<Rightarrow> uuid \<Rightarrow> redis \<Rightarrow> (error + unit) \<times> redis" where
  "check_rate_limit cfg now tenant_id r =
     (let key = RL tenant_id (minute_window now);
          (current, r1) = redis_incr now key r;
          r2 = (if current = 1 then redis_expire now key 60 r1 else r1)
      in if current > RATE_LIMIT_RPM cfg
         then (Inl (HTTPException 429 ''Rate limit exceeded''), r2)
         else (Inr (), r2))"

text \<open>
  \<open>if not key: return\<close> holds for a missing header (\<open>None\<close>) and for an empty one.
\<close>

definition ensure_idempotent :: "real \<Rightarrow> uuid \<Rightarrow> string option \<Rightarrow> redis \<Rightarrow> (error + unit) \<times> redis" where
  "ensure_idempotent now tenant_id key r =
     (case key of
        None \<Rightarrow> (Inr (), r)
      | Some k \<Rightarrow>
          if k = [] then (Inr (), r)
          else
            (let redis_key = IDEMP tenant_id k;
                 (was_set, r1) = redis_set_nx_ex now redis_key 1 (60 * 30) r
             in if \<not> was_set
                then (Inl (HTTPException 409 ''Duplicate request (idempotency)''), r1)
                else (Inr (), r1)))"

text \<open>A tenant's requests in sequence, each at its own time: the results in order.\<close>

fun rate_limit_run :: "settings \<Rightarrow> uuid \<Rightarrow> real list \<Rightarrow> redis \<Rightarrow> (error + unit) list \<times> redis" where
  "rate_limit_run cfg tenant_id [] r = ([], r)"
| "rate_limit_run cfg tenant_id (now # ts) r =
     (let (res, r1) = check_rate_limit cfg now tenant_id r;
          (rs, r2) = rate_limit_run cfg tenant_id ts r1
      in (res # rs, r2))"

section \<open>The relational store\<close>

text \<open>
  One record per ORM model (\<open>db/models/*.py\<close>). Tables whose primary key is the only
  lookup the handlers use (\<open>plans\<close>, \<open>subscriptions\<close>, \<open>tenants\<close>) are maps from that
  key; \<open>projects\<close> and \<open>usage_daily\<close> are row lists, queried with the predicates of
  the SQL statements.
\<close>

record plan =
  pl_id :: string
  pl_name :: string
  max_projects :: int
  monthly_message_cap :: int
  monthly_upload_char_cap :: int
  is_annual_available :: bool

record subscription =
  sub_tenant_id :: uuid
  sub_plan_id :: string
  billing_cycle :: string
  current_period_start :: date
  current_period_end :: date

record tenant =
  tenant_ident :: uuid
  tenant_name :: string
  tenant_plan :: string
  plan_messages :: int

record project =
  p_id :: uuid
  p_tenant_id :: uuid
  p_name :: string
  vector_store_id :: "string option"

record usage_row =
  usage_date :: date
  usage_tenant_id :: uuid
  usage_project_id :: uuid
  messages_count :: int
  tokens_in :: int
  tokens_out :: int
  chars_uploaded :: int

record message =
  msg_tenant_id :: uuid
  msg_project_id :: uuid
  msg_role :: string
  msg_content :: string
  msg_tokens_in :: int
  msg_tokens_out :: int
  msg_idempotency_key :: "string option"

text \<open>Calls made to the retrieval/LLM provider, in order.\<close>

type_synonym bytes = "8 word list"
type_synonym file_tuple = "string \<times> bytes \<times> string"

datatype provider_call =
    FileSearch "string list" string string
  | UploadFiles "file_tuple list"
  | AttachBatch string "string list"

record world =
  redis :: redis
  tenants :: "uuid \<rightharpoonup> tenant"
  plans :: "string \<rightharpoonup> plan"
  subscriptions :: "uuid \<rightharpoonup> subscription"
  projects :: "project list"
  usage_daily :: "usage_row list"
  messages :: "message list"
  provider_log :: "provider_call list"

subsection \<open>SQL aggregates\<close>

text \<open>\<open>SUM\<close> over no rows is \<open>NULL\<close>; \<open>COALESCE(x, 0)\<close> replaces \<open>NULL\<close> by 0.\<close>

definition sql_sum :: "int list \<Rightarrow> int option" where
  "sql_sum xs = (if xs = [] then None else Some (sum_list xs))"

definition coalesce :: "int option \<Rightarrow> int \<Rightarrow> int" where
  "coalesce v d = (case v of None \<Rightarrow> d | Some x \<Rightarrow> x)"

text \<open>\<open>result.scalar_one_or_none()\<close> on the rows a query selects.\<close>

definition scalar_one_or_none :: "'a list \<Rightarrow> error + 'a option" where
  "scalar_one_or_none rows =
     (case rows of [] \<Rightarrow> Inr None | [x] \<Rightarrow> Inr (Some x) | _ \<Rightarrow> Inl MultipleResultsFound)"

subsection \<open>\<open>repositories/usage_repo.py\<close>\<close>

text \<open>
  \<open>INSERT ... ON CONFLICT (date, tenant_id, project_id) DO UPDATE SET ...\<close>: the row
  with the key of \<open>new\<close> is updated by \<open>upd\<close>, and \<open>new\<close> is inserted when there is none.
\<close>

definition same_key :: "usage_row \<Rightarrow> usage_row \<Rightarrow> bool" where
  "same_key u v \<longleftrightarrow>
     usage_date u = usage_date v \<and> usage_tenant_id u = usage_tenant_id v
     \<and> usage_project_id u = usage_project_id v"

fun upsert_usage :: "usage_row \<Rightarrow> (usage_row \<Rightarrow> usage_row) \<Rightarrow> usage_row list \<Rightarrow> usage_row list" where
  "upsert_usage new upd [] = [new]"
| "upsert_usage new upd (u # us) =
     (if same_key u new then upd u # us else u # upsert_usage new upd us)"

definition increment_message ::
  "date \<Rightarrow> uuid \<Rightarrow> uuid \<Rightarrow> int \<Rightarrow> int \<Rightarrow> usage_row list \<Rightarrow> usage_row list" where
  "increment_message today tenant_id project_id ti to rows =
     upsert_usage
       \<lparr>usage_date = today, usage_tenant_id = tenant_id, usage_project_id = project_id,
        messages_count = 1, tokens_in = ti, tokens_out = to, chars_uploaded = 0\<rparr>
       (\<lambda>u. u\<lparr>messages_count := messages_count u + 1,
              tokens_in := tokens_in u + ti,
              tokens_out := tokens_out u + to\<rparr>)
       rows"

definition messages_in_period :: "uuid \<Rightarrow> date \<Rightarrow> date \<Rightarrow> usage_row list \<Rightarrow> int" where
  "messages_in_period tenant_id period_start period_end rows =
     coalesce (sql_sum (map messages_count
       (filter (\<lambda>u. usage_tenant_id u = tenant_id
                  \<and> usage_date u \<ge> period_start
                  \<and> usage_date u < period_end) rows))) 0"

definition chars_uploaded_for_project_in_period ::
  "uuid \<Rightarrow> uuid \<Rightarrow> date \<Rightarrow> date \<Rightarrow> usage_row list \<Rightarrow> int" where
  "chars_uploaded_for_project_in_period tenant_id project_id period_start period_end rows =
     coalesce (sql_sum (map chars_uploaded
       (filter (\<lambda>u. usage_tenant_id u = tenant_id
                  \<and> usage_project_id u = project_id
                  \<and> usage_date u \<ge> period_start
                  \<and> usage_date u < period_end) rows))) 0"

definition chars_uploaded_in_period :: "uuid \<Rightarrow> date \<Rightarrow> date \<Rightarrow> usage_row list \<Rightarrow> int" where
  "chars_uploaded_in_period tenant_id period_start period_end rows =
     coalesce (sql_sum (map chars_uploaded
       (filter (\<lambda>u. usage_tenant_id u = tenant_id
                  \<and> usage_date u \<ge> period_start
                  \<and> usage_date u < period_end) rows))) 0"

definition record_upload_chars ::
  "date \<Rightarrow> uuid \<Rightarrow> uuid \<Rightarrow> int \<Rightarrow> usage_row list \<Rightarrow> usage_row list" where
  "record_upload_chars today tenant_id project_id char_count rows =
     upsert_usage
       \<lparr>usage_date = today, usage_tenant_id = tenant_id, usage_project_id = project_id,
        messages_count = 0, tokens_in = 0, tokens_out = 0, chars_uploaded = char_count\<rparr>
       (\<lambda>u. u\<lparr>chars_uploaded := chars_uploaded u + char_count\<rparr>)
       rows"

subsection \<open>\<open>repositories/project_repo.py\<close>, \<open>subscription_repo.py\<close>\<close>

definition get_by_id :: "project list \<Rightarrow> uuid \<Rightarrow> error + project option" where
  "get_by_id ps pid = scalar_one_or_none (filter (\<lambda>p. p_id p = pid) ps)"




text \<open>The subscription row of the tenant with its \<open>plan\<close> relationship loaded.\<close>

definition get_with_plan :: "world \<Rightarrow> uuid \<Rightarrow> (subscription \<times> plan option) option" where
  "get_with_plan w tenant_id =
     (case subscriptions w tenant_id of
        None \<Rightarrow> None
      | Some s \<Rightarrow> Some (s, plans w (sub_plan_id s)))"


section \<open>Decoding uploaded bytes\<close>

text \<open>
  \<open>file_bytes.decode("utf-8", "ignore")\<close>. A Python \<open>str\<close> is a sequence of code points
  and \<open>len\<close> counts them. The decoder reads one sequence at a time: \<open>utf8_step\<close> looks
  at the lead byte and the bytes after it and returns either the code point with the
  number of bytes it took, or the number of bytes of an ill-formed sequence (an invalid
  start byte, a lead byte followed by a byte that cannot continue it, or a sequence cut
  off by the end of the data). The \<open>ignore\<close> handler drops the ill-formed bytes and
  goes on; the \<open>strict\<close> handler raises \<open>UnicodeDecodeError\<close>.
\<close>

type_synonym py_str = "nat list"

datatype utf8_result = Decoded nat nat | Illformed nat

definition is_continuation_byte :: "8 word \<Rightarrow> bool" where
  "is_continuation_byte b \<longleftrightarrow> 0x80 \<le> b \<and> b < 0xC0"

definition bad_second3 :: "8 word \<Rightarrow> 8 word \<Rightarrow> bool" where
  "bad_second3 ch c2 \<longleftrightarrow>
     \<not> is_continuation_byte c2 \<or> (if c2 < 0xA0 then ch = 0xE0 else ch = 0xED)"

definition bad_second4 :: "8 word \<Rightarrow> 8 word \<Rightarrow> bool" where
  "bad_second4 ch c2 \<longleftrightarrow>
     \<not> is_continuation_byte c2 \<or> (if c2 < 0x90 then ch = 0xF0 else ch = 0xF4)"

definition utf8_step :: "8 word \<Rightarrow> bytes \<Rightarrow> utf8_result" where
  "utf8_step ch rest =
     (if ch < 0x80 then Decoded (unat ch) 1
      else if ch < 0xC2 then Illformed 1
      else if ch < 0xE0 then
        (case rest of
           [] \<Rightarrow> Illformed 1
         | c2 # _ \<Rightarrow>
             if is_continuation_byte c2
             then Decoded ((unat ch mod 32) * 64 + unat c2 mod 64) 2
             else Illformed 1)
      else if ch < 0xF0 then
        (case rest of
           [] \<Rightarrow> Illformed 1
         | [c2] \<Rightarrow> if bad_second3 ch c2 then Illformed 1 else Illformed 2
         | c2 # c3 # _ \<Rightarrow>
             if bad_second3 ch c2 then Illformed 1
             else if \<not> is_continuation_byte c3 then Illformed 2
             else Decoded ((unat ch mod 16) * 4096 + (unat c2 mod 64) * 64 + unat c3 mod 64) 3)
      else if ch < 0xF5 then
        (case rest of
           [] \<Rightarrow> Illformed 1
         | [c2] \<Rightarrow> if bad_second4 ch c2 then Illformed 1 else Illformed 2
         | [c2, c3] \<Rightarrow>
             if bad_second4 ch c2 then Illformed 1
             else if \<not> is_continuation_byte c3 then Illformed 2
             else Illformed 3
         | c2 # c3 # c4 # _ \<Rightarrow>
             if bad_second4 ch c2 then Illformed 1
             else if \<not> is_continuation_byte c3 then Illformed 2
             else if \<not> is_continuation_byte c4 then Illformed 3
             else Decoded ((unat ch mod 8) * 262144 + (unat c2 mod 64) * 4096
                            + (unat c3 mod 64) * 64 + unat c4 mod 64) 4)
      else Illformed 1)"

fun utf8_decode_ignore :: "bytes \<Rightarrow> py_str" where
  "utf8_decode_ignore [] = []"
| "utf8_decode_ignore (ch # rest) =
     (case utf8_step ch rest of
        Decoded cp n \<Rightarrow> cp # utf8_decode_ignore (drop (n - 1) rest)
      | Illformed n \<Rightarrow> utf8_decode_ignore (drop (n - 1) rest))"

fun utf8_decode_strict :: "bytes \<Rightarrow> py_str option" where
  "utf8_decode_strict [] = Some []"
| "utf8_decode_strict (ch # rest) =
     (case utf8_step ch rest of
        Decoded cp n \<Rightarrow> map_option ((#) cp) (utf8_decode_strict (drop (n - 1) rest))
      | Illformed n \<Rightarrow> None)"

text \<open>
  The call as the handler makes it, inside \<open>try\<close>: with the \<open>ignore\<close> handler the
  decoder has no raising path, so the result is always a string.
\<close>

datatype decode_error = UnicodeDecodeError

definition decode_utf8_ignore :: "bytes \<Rightarrow> decode_error + py_str" where
  "decode_utf8_ignore file_bytes = Inr (utf8_decode_ignore file_bytes)"

section \<open>Collaborators outside the repository\<close>

text \<open>
  The provider's reply to a file-search question: the answer text and the raw response,
  of which the handler reads the \<open>usage\<close> attribute (token counts by name, possibly
  absent) and the file citations.
\<close>

record raw_response =
  usage :: "(string \<rightharpoonup> int) option"
  file_citations :: "string list"

record batch =
  batch_status :: "string option"
  batch_file_counts :: "string option"

text \<open>
  Library and provider functions the handlers call: \<open>uuid.UUID(value)\<close> (\<open>None\<close> where it
  raises \<open>ValueError\<close>), \<open>start + relativedelta(months=n)\<close> and \<open>(years=n)\<close>, and the three
  provider calls (\<open>Inl\<close> with the message where the client raises).
\<close>

record externals =
  UUID :: "string \<Rightarrow> uuid option"
  plus_months :: "date \<Rightarrow> nat \<Rightarrow> date"
  plus_years :: "date \<Rightarrow> nat \<Rightarrow> date"
  responses_file_search :: "string list \<Rightarrow> string \<Rightarrow> string \<Rightarrow> string + (string \<times> raw_response)"
  upload_files_to_openai :: "file_tuple list \<Rightarrow> string + string list"
  attach_files_batch :: "string \<Rightarrow> string list \<Rightarrow> string + batch"

section \<open>\<open>api/v1/endpoints/query.py\<close>\<close>

record ask_body =
  body_project_id :: uuid
  question :: string

record ask_response =
  answer :: string
  resp_tokens_in :: int
  resp_tokens_out :: int
  resp_citations :: "string list"

definition extract_usage_token :: "(string \<rightharpoonup> int) option \<Rightarrow> string \<Rightarrow> int" where
  "extract_usage_token usage_data key =
     (case usage_data of
        None \<Rightarrow> 0
      | Some u \<Rightarrow> (case u key of None \<Rightarrow> 0 | Some v \<Rightarrow> v))"

definition extract_citations :: "raw_response \<Rightarrow> string list" where
  "extract_citations raw = file_citations raw"

text \<open>
  The part of \<open>ask\<close> after the message gate: store the user message, call the provider,
  and only when the call returned store the assistant message and increment the usage.
\<close>

definition ask_metered ::
  "settings \<Rightarrow> externals \<Rightarrow> date \<Rightarrow> uuid \<Rightarrow> string option \<Rightarrow> ask_body \<Rightarrow> string \<Rightarrow> world
     \<Rightarrow> (error + ask_response) \<times> world" where
  "ask_metered cfg ext today tenant_id idempotency_key body vs w =
     (let user_message =
            \<lparr>msg_tenant_id = tenant_id, msg_project_id = body_project_id body,
             msg_role = ''user'', msg_content = question body,
             msg_tokens_in = 0, msg_tokens_out = 0, msg_idempotency_key = idempotency_key\<rparr>;
          w1 = w\<lparr>messages := messages w @ [user_message]\<rparr>;
          w2 = w1\<lparr>provider_log := provider_log w1
                  @ [FileSearch [vs] (question body) (OPENAI_MODEL_DEFAULT cfg)]\<rparr>
      in case responses_file_search ext [vs] (question body) (OPENAI_MODEL_DEFAULT cfg) of
           Inl msg \<Rightarrow> (Inl (UpstreamFailure msg), w2)
         | Inr (ans, raw) \<Rightarrow>
             (let ti = extract_usage_token (usage raw) ''input_tokens'';
                  to = extract_usage_token (usage raw) ''output_tokens'';
                  assistant_message =
                    \<lparr>msg_tenant_id = tenant_id, msg_project_id = body_project_id body,
                     msg_role = ''assistant'', msg_content = ans,
                     msg_tokens_in = ti, msg_tokens_out = to, msg_idempotency_key = None\<rparr>;
                  w3 = w2\<lparr>messages := messages w2 @ [assistant_message]\<rparr>;
                  w4 = w3\<lparr>usage_daily :=
                          increment_message today tenant_id (body_project_id body) ti to
                            (usage_daily w3)\<rparr>
              in (Inr \<lparr>answer = ans, resp_tokens_in = ti, resp_tokens_out = to,
                       resp_citations = extract_citations raw\<rparr>, w4)))"

text \<open>The checks of \<open>ask\<close> after the rate limiter and the idempotency guard.\<close>

definition ask_checked ::
  "settings \<Rightarrow> externals \<Rightarrow> date \<Rightarrow> uuid \<Rightarrow> string option \<Rightarrow> ask_body \<Rightarrow> world
     \<Rightarrow> (error + ask_response) \<times> world" where
  "ask_checked cfg ext today tenant_id idempotency_key body w =
     (case get_by_id (projects w) (body_project_id body) of
        Inl e \<Rightarrow> (Inl e, w)
      | Inr None \<Rightarrow> (Inl (HTTPException 404 ''Project not found''), w)
      | Inr (Some project) \<Rightarrow>
          if p_tenant_id project \<noteq> tenant_id
          then (Inl (HTTPException 404 ''Project not found''), w)
          else if \<not> truthy (vector_store_id project)
          then (Inl (HTTPException 400 ''Vector store missing. Ingest files first.''), w)
          else
            (case get_with_plan w tenant_id of
               None \<Rightarrow> (Inl (HTTPException 403 ''No active subscription''), w)
             | Some (subscription, None) \<Rightarrow>
                 (Inl (HTTPException 500 ''Subscription plan data missing''), w)
             | Some (subscription, Some pl) \<Rightarrow>
                 (let messages_used =
                        messages_in_period tenant_id (current_period_start subscription)
                          (current_period_end subscription) (usage_daily w)
                  in if messages_used \<ge> monthly_message_cap pl
                     then (Inl (HTTPException 402 ''Monthly message cap reached. Upgrade plan.''), w)
                     else ask_metered cfg ext today tenant_id idempotency_key body
                            (case vector_store_id project of Some vs \<Rightarrow> vs | None \<Rightarrow> [])
                            w)))"

definition ask ::
  "settings \<Rightarrow> externals \<Rightarrow> real \<Rightarrow> date \<Rightarrow> uuid \<Rightarrow> string option \<Rightarrow> ask_body \<Rightarrow> world
     \<Rightarrow> (error + ask_response) \<times> world" where
  "ask cfg ext now today tenant_id idempotency_key body w =
     (case check_rate_limit cfg now tenant_id (redis w) of
        (Inl e, r1) \<Rightarrow> (Inl e, w\<lparr>redis := r1\<rparr>)
      | (Inr u, r1) \<Rightarrow>
          (case ensure_idempotent now tenant_id idempotency_key r1 of
             (Inl e, r2) \<Rightarrow> (Inl e, w\<lparr>redis := r2\<rparr>)
           | (Inr u2, r2) \<Rightarrow>
               ask_checked cfg ext today tenant_id idempotency_key body (w\<lparr>redis := r2\<rparr>)))"

section \<open>\<open>api/v1/endpoints/ingestion.py\<close>\<close>

definition parse_uuid :: "externals \<Rightarrow> string \<Rightarrow> string \<Rightarrow> error + uuid" where
  "parse_uuid ext v field_name =
     (case UUID ext v of
        Some u \<Rightarrow> Inr u
      | None \<Rightarrow> Inl (HTTPException 400 (''Invalid '' @ field_name)))"



record upload_file =
  filename :: "string option"
  file_bytes :: bytes
  content_type :: "string option"

text \<open>\<open>x or default\<close> on an optional string.\<close>

definition or_default :: "string option \<Rightarrow> string \<Rightarrow> string" where
  "or_default v d = (case v of None \<Rightarrow> d | Some s \<Rightarrow> if s = [] then d else s)"

text \<open>The loop over the uploaded files: the running character total and the payload.\<close>

fun read_files :: "upload_file list \<Rightarrow> int \<Rightarrow> file_tuple list \<Rightarrow> int \<times> file_tuple list" where
  "read_files [] total_chars payload = (total_chars, payload)"
| "read_files (upload # rest) total_chars payload =
     (let fb = file_bytes upload;
          total' = (case decode_utf8_ignore fb of
                      Inr decoded \<Rightarrow> total_chars + int (length decoded)
                    | Inl e \<Rightarrow> total_chars + int (length fb))
      in read_files rest total'
           (payload @ [(or_default (filename upload) ''upload.bin'', fb,
                        or_default (content_type upload) ''application/octet-stream'')]))"

record upload_response =
  up_project_id :: uuid
  up_vector_store_id :: "string option"
  up_batch_status :: "string option"
  up_file_counts :: "string option"

text \<open>The part of \<open>upload_and_attach\<close> after the upload gate.\<close>

definition upload_metered ::
  "externals \<Rightarrow> date \<Rightarrow> uuid \<Rightarrow> uuid \<Rightarrow> project \<Rightarrow> string \<Rightarrow> int \<Rightarrow> file_tuple list \<Rightarrow> world
     \<Rightarrow> (error + upload_response) \<times> world" where
  "upload_metered ext today tenant_uuid project_uuid p vs total_chars payload w =
     (let w1 = w\<lparr>provider_log := provider_log w @ [UploadFiles payload]\<rparr>
      in case upload_files_to_openai ext payload of
           Inl msg \<Rightarrow> (Inl (UpstreamFailure msg), w1)
         | Inr uploaded_ids \<Rightarrow>
             (let w2 = w1\<lparr>provider_log := provider_log w1 @ [AttachBatch vs uploaded_ids]\<rparr>
              in case attach_files_batch ext vs uploaded_ids of
                   Inl msg \<Rightarrow> (Inl (UpstreamFailure msg), w2)
                 | Inr b \<Rightarrow>
                     (let w3 = (if total_chars \<noteq> 0
                                then w2\<lparr>usage_daily :=
                                       record_upload_chars today tenant_uuid project_uuid
                                         total_chars (usage_daily w2)\<rparr>
                                else w2)
                      in (Inr \<lparr>up_project_id = p_id p,
                               up_vector_store_id = vector_store_id p,
                               up_batch_status = batch_status b,
                               up_file_counts = batch_file_counts b\<rparr>, w3))))"

text \<open>The checks of \<open>upload_and_attach\<close> after the rate limiter.\<close>

definition upload_checked ::
  "externals \<Rightarrow> date \<Rightarrow> uuid \<Rightarrow> uuid \<Rightarrow> upload_file list \<Rightarrow> world
     \<Rightarrow> (error + upload_response) \<times> world" where
  "upload_checked ext today tenant_uuid project_uuid files w =
     (case get_by_id (projects w) project_uuid of
        Inl e \<Rightarrow> (Inl e, w)
      | Inr None \<Rightarrow> (Inl (HTTPException 404 ''Project not found''), w)
      | Inr (Some p) \<Rightarrow>
          if p_tenant_id p \<noteq> tenant_uuid
          then (Inl (HTTPException 404 ''Project not found''), w)
          else if \<not> truthy (vector_store_id p)
          then (Inl (HTTPException 400
                  ''Vector store missing. Call ensure_vector_store first.''), w)
          else
            (let (total_chars, payload) = read_files files 0 []
             in case get_with_plan w tenant_uuid of
                  None \<Rightarrow> (Inl (HTTPException 403 ''No active subscription''), w)
                | Some (subscription, None) \<Rightarrow>
                    (Inl (HTTPException 500 ''Subscription plan data missing''), w)
                | Some (subscription, Some pl) \<Rightarrow>
                    (let already_uploaded =
                           chars_uploaded_for_project_in_period tenant_uuid project_uuid
                             (current_period_start subscription)
                             (current_period_end subscription) (usage_daily w)
                     in if already_uploaded + total_chars > monthly_upload_char_cap pl
                        then (Inl (HTTPException 402
                          ''Upload character cap exceeded for this billing period. Upgrade your plan.''), w)
                        else upload_metered ext today tenant_uuid project_uuid p
                               (case vector_store_id p of Some vs \<Rightarrow> vs | None \<Rightarrow> [])
                               total_chars payload w)))"

definition upload_and_attach ::
  "settings \<Rightarrow> externals \<Rightarrow> real \<Rightarrow> date \<Rightarrow> uuid \<Rightarrow> string \<Rightarrow> string \<Rightarrow> upload_file list \<Rightarrow> world
     \<Rightarrow> (error + upload_response) \<times> world" where
  "upload_and_attach cfg ext now today auth_tenant tenant_id project_id files w =
     (if files = [] then (Inl (HTTPException 400 ''No files provided''), w)
      else
        (case parse_uuid ext tenant_id ''tenant_id'' of
           Inl e \<Rightarrow> (Inl e, w)
         | Inr tenant_uuid \<Rightarrow>
             (case parse_uuid ext project_id ''project_id'' of
                Inl e \<Rightarrow> (Inl e, w)
              | Inr project_uuid \<Rightarrow>
                  if auth_tenant \<noteq> tenant_uuid
                  then (Inl (HTTPException 403 ''Tenant mismatch''), w)
                  else
                    (case check_rate_limit cfg now tenant_uuid (redis w) of
                       (Inl e, r1) \<Rightarrow> (Inl e, w\<lparr>redis := r1\<rparr>)
                     | (Inr u, r1) \<Rightarrow>
                         upload_checked ext today tenant_uuid project_uuid files
                           (w\<lparr>redis := r1\<rparr>)))))"

section \<open>\<open>api/v1/endpoints/billing.py\<close>\<close>


section \<open>A concrete deployment\<close>

text \<open>
  Example data on which the theorems below are instantiated: a tenant \<open>t1\<close> subscribed to
  the plan \<open>pro\<close> (one project, two messages and ten uploaded characters per period) for
  the period \<open>[10, 40)\<close>, with one project that has a vector store, and a provider that
  fails on the question \<open>boom\<close> and answers every other one.
\<close>

definition ex_cfg :: settings where
  "ex_cfg = \<lparr>RATE_LIMIT_RPM = 60, OPENAI_MODEL_DEFAULT = ''gpt''\<rparr>"

definition ex_ext :: externals where
  "ex_ext =
     \<lparr>UUID = (\<lambda>s. if s = [] then None else Some s),
      plus_months = (\<lambda>d n. d + 30 * int n),
      plus_years = (\<lambda>d n. d + 365 * int n),
      responses_file_search =
        (\<lambda>vs q m. if q = ''boom'' then Inl ''provider down''
                   else Inr (''fine'', \<lparr>usage = Some [''input_tokens'' \<mapsto> 2, ''output_tokens'' \<mapsto> 3],
                                        file_citations = []\<rparr>)),
      upload_files_to_openai = (\<lambda>fs. Inr (map fst fs)),
      attach_files_batch =
        (\<lambda>vs ids. Inr \<lparr>batch_status = Some ''completed'', batch_file_counts = None\<rparr>)\<rparr>"

definition ex_plan :: plan where
  "ex_plan = \<lparr>pl_id = ''pro'', pl_name = ''Pro'', max_projects = 1, monthly_message_cap = 2,
              monthly_upload_char_cap = 10, is_annual_available = True\<rparr>"

definition ex_subscription :: subscription where
  "ex_subscription = \<lparr>sub_tenant_id = ''t1'', sub_plan_id = ''pro'', billing_cycle = ''monthly'',
                      current_period_start = 10, current_period_end = 40\<rparr>"

definition ex_project :: project where
  "ex_project = \<lparr>p_id = ''p1'', p_tenant_id = ''t1'', p_name = ''Docs'',
                 vector_store_id = Some ''vs1''\<rparr>"

definition ex_usage :: "int \<Rightarrow> int \<Rightarrow> usage_row" where
  "ex_usage m c = \<lparr>usage_date = 12, usage_tenant_id = ''t1'', usage_project_id = ''p1'',
                   messages_count = m, tokens_in = 0, tokens_out = 0, chars_uploaded = c\<rparr>"

definition ex_world :: "usage_row list \<Rightarrow> world" where
  "ex_world rows =
     \<lparr>redis = (\<lambda>k. None),
      tenants = [''t1'' \<mapsto> \<lparr>tenant_ident = ''t1'', tenant_name = ''Acme'', tenant_plan = ''pro'',
                            plan_messages = 2\<rparr>],
      plans = [''pro'' \<mapsto> ex_plan],
      subscriptions = [''t1'' \<mapsto> ex_subscription],
      projects = [ex_project],
      usage_daily = rows,
      messages = [],
      provider_log = []\<rparr>"

section \<open>The rate limiter\<close>

lemma window_bounds: "minute_window now = w \<Longrightarrow> 60 * of_int w \<le> now \<and> now < 60 * (of_int w + 1)"
  unfolding minute_window_def by (simp add: floor_eq_iff) 

lemma crl_first:
  assumes "r (RL t (minute_window now)) = None"
  shows "check_rate_limit cfg now t r =
     ((if 1 > RATE_LIMIT_RPM cfg then Inl (HTTPException 429 ''Rate limit exceeded'') else Inr ()),
      r(RL t (minute_window now) \<mapsto> (1, Some (now + 60))))"
  using assms by (simp add: check_rate_limit_def redis_incr_def redis_expire_def redis_get_def Let_def)

lemma crl_next:
  assumes "r (RL t (minute_window now)) = Some (c, Some e)" "now < e" "1 \<le> c"
  shows "check_rate_limit cfg now t r =
     ((if c + 1 > RATE_LIMIT_RPM cfg then Inl (HTTPException 429 ''Rate limit exceeded'') else Inr ()),
      r(RL t (minute_window now) \<mapsto> (c + 1, Some e)))"
  using assms by (simp add: check_rate_limit_def redis_incr_def redis_expire_def redis_get_def Let_def)

lemma crl_other: "k \<noteq> RL t (minute_window now) \<Longrightarrow> snd (check_rate_limit cfg now t r) k = r k"
  by (simp add: check_rate_limit_def redis_incr_def redis_expire_def redis_get_def Let_def split: option.splits)

lemma run_Cons_fst: "fst (rate_limit_run cfg t (a # ts) r) =
    fst (check_rate_limit cfg a t r) # fst (rate_limit_run cfg t ts (snd (check_rate_limit cfg a t r)))"
  by (simp add: Let_def case_prod_beta)

lemma run_Cons_snd: "snd (rate_limit_run cfg t (a # ts) r) =
    snd (rate_limit_run cfg t ts (snd (check_rate_limit cfg a t r)))"
  by (simp add: Let_def case_prod_beta)

lemma run_length: "length (fst (rate_limit_run cfg t ts r)) = length ts"
  by (induction ts arbitrary: r) (simp_all add: run_Cons_fst del: rate_limit_run.simps(2))

lemma run_other: "\<forall>now\<in>set ts. k \<noteq> RL t (minute_window now) \<Longrightarrow> snd (rate_limit_run cfg t ts r) k = r k"
proof (induction ts arbitrary: r)
  case Nil then show ?case by simp
next
  case (Cons a ts)
  with crl_other[of k t a cfg r] show ?case by (simp add: run_Cons_snd del: rate_limit_run.simps(2))
qed

lemma run_counted:
  assumes "\<forall>now\<in>set ts. minute_window now = w"
    and "r (RL t w) = Some (c, Some e)" "60 * (of_int w + 1) \<le> e" "1 \<le> c" "i < length ts"
  shows "fst (rate_limit_run cfg t ts r) ! i =
     (if c + int i + 1 > RATE_LIMIT_RPM cfg then Inl (HTTPException 429 ''Rate limit exceeded'') else Inr ())"
  using assms
proof (induction ts arbitrary: r c i)
  case Nil then show ?case by simp
next
  case (Cons a ts)
  have wa: "minute_window a = w" using Cons.prems(1) by simp
  then have "a < e" using window_bounds[OF wa] Cons.prems(3) by linarith
  then have step: "check_rate_limit cfg a t r =
     ((if c + 1 > RATE_LIMIT_RPM cfg then Inl (HTTPException 429 ''Rate limit exceeded'') else Inr ()),
      r(RL t w \<mapsto> (c + 1, Some e)))"
    using crl_next[of r t a c e cfg] Cons.prems wa by simp
  show ?case
  proof (cases i)
    case 0 then show ?thesis using step by (simp add: run_Cons_fst del: rate_limit_run.simps(2))
  next
    case (Suc j)
    have "fst (rate_limit_run cfg t ts (r(RL t w \<mapsto> (c + 1, Some e)))) ! j =
      (if (c + 1) + int j + 1 > RATE_LIMIT_RPM cfg then Inl (HTTPException 429 ''Rate limit exceeded'') else Inr ())"
      using Cons.prems Suc by (intro Cons.IH) auto
    then show ?thesis using step Suc by (simp add: run_Cons_fst add.commute add.left_commute del: rate_limit_run.simps(2))
  qed
qed

text \<open>
  C3. The rate limiter is a fixed-window counter keyed by the tenant and
  \<open>floor(now / 60)\<close>. Take a window \<open>w\<close> whose key and whose successor's key are not yet
  in the store. The first increment in the window, at time \<open>now\<close>, leaves the key with
  count 1 and an expiry 60 seconds later. Of any number of requests of the tenant at times
  inside the window, request number \<open>i + 1\<close> passes exactly when \<open>i\<close> is below the
  configured requests-per-minute cap \<open>N\<close>: the first \<open>N\<close> pass and request \<open>N + 1\<close> (and
  every later one) is denied with 429 "Rate limit exceeded". A request in the next
  window passes, whatever happened in this one, when the cap is at least 1.
\<close>

theorem rate_limit_fixed_window:
  assumes fresh: "r (RL t w) = None" "r (RL t (w + 1)) = None"
    and win: "\<forall>now\<in>set ts. minute_window now = w"
  shows "(minute_window now = w \<longrightarrow>
            snd (check_rate_limit cfg now t r) (RL t w) = Some (1, Some (now + 60)))
       \<and> length (fst (rate_limit_run cfg t ts r)) = length ts
       \<and> (\<forall>i < length ts. fst (rate_limit_run cfg t ts r) ! i =
            (if int i < RATE_LIMIT_RPM cfg then Inr ()
             else Inl (HTTPException 429 ''Rate limit exceeded'')))
       \<and> (minute_window now' = w + 1 \<and> 1 \<le> RATE_LIMIT_RPM cfg \<longrightarrow>
            fst (check_rate_limit cfg now' t (snd (rate_limit_run cfg t ts r))) = Inr ())"
proof (intro conjI)
  show "minute_window now = w \<longrightarrow>
           snd (check_rate_limit cfg now t r) (RL t w) = Some (1, Some (now + 60))"
    using fresh(1) by (auto simp: crl_first)
  show "length (fst (rate_limit_run cfg t ts r)) = length ts" by (rule run_length)
  show "\<forall>i < length ts. fst (rate_limit_run cfg t ts r) ! i =
           (if int i < RATE_LIMIT_RPM cfg then Inr ()
            else Inl (HTTPException 429 ''Rate limit exceeded''))"
  proof (intro allI impI)
    fix i assume i: "i < length ts"
    then obtain a ts' where ts: "ts = a # ts'" by (cases ts) auto
    have wa: "minute_window a = w" using win ts by simp
    have step: "check_rate_limit cfg a t r =
     ((if 1 > RATE_LIMIT_RPM cfg then Inl (HTTPException 429 ''Rate limit exceeded'') else Inr ()),
      r(RL t w \<mapsto> (1, Some (a + 60))))"
      using crl_first[of r t a cfg] fresh(1) wa by simp
    show "fst (rate_limit_run cfg t ts r) ! i =
           (if int i < RATE_LIMIT_RPM cfg then Inr ()
            else Inl (HTTPException 429 ''Rate limit exceeded''))"
    proof (cases i)
      case 0 then show ?thesis using step ts by (auto simp add: run_Cons_fst simp del: rate_limit_run.simps(2))
    next
      case (Suc j)
      have "60 * (of_int w + 1) \<le> a + 60" using window_bounds[OF wa] by simp
      then have "fst (rate_limit_run cfg t ts' (r(RL t w \<mapsto> (1, Some (a + 60))))) ! j =
          (if 1 + int j + 1 > RATE_LIMIT_RPM cfg then Inl (HTTPException 429 ''Rate limit exceeded'') else Inr ())"
        using win ts i Suc by (intro run_counted) auto
      then show ?thesis using step ts Suc by (auto simp add: run_Cons_fst simp del: rate_limit_run.simps(2))
    qed
  qed
  show "minute_window now' = w + 1 \<and> 1 \<le> RATE_LIMIT_RPM cfg \<longrightarrow>
           fst (check_rate_limit cfg now' t (snd (rate_limit_run cfg t ts r))) = Inr ()"
  proof (intro impI)
    assume a: "minute_window now' = w + 1 \<and> 1 \<le> RATE_LIMIT_RPM cfg"
    have "snd (rate_limit_run cfg t ts r) (RL t (w + 1)) = r (RL t (w + 1))"
      using win by (intro run_other) auto
    then have "snd (rate_limit_run cfg t ts r) (RL t (minute_window now')) = None"
      using fresh(2) a by simp
    from crl_first[of "snd (rate_limit_run cfg t ts r)" t now' cfg, OF this] a
    show "fst (check_rate_limit cfg now' t (snd (rate_limit_run cfg t ts r))) = Inr ()"
      by simp
  qed
qed

theorem rate_limit_fixed_window_witness:
  "minute_window 120 = 2 \<and> minute_window 130 = 2 \<and> minute_window 150 = 2
   \<and> minute_window 185 = 2 + 1
   \<and> snd (check_rate_limit \<lparr>RATE_LIMIT_RPM = 2, OPENAI_MODEL_DEFAULT = ''gpt''\<rparr> 121 ''t1'' (\<lambda>k. None))
        (RL ''t1'' 2) = Some (1, Some (121 + 60))
   \<and> fst (rate_limit_run \<lparr>RATE_LIMIT_RPM = 2, OPENAI_MODEL_DEFAULT = ''gpt''\<rparr> ''t1'' [120, 130, 150] (\<lambda>k. None))
       = [Inr (), Inr (), Inl (HTTPException 429 ''Rate limit exceeded'')]
   \<and> fst (check_rate_limit \<lparr>RATE_LIMIT_RPM = 2, OPENAI_MODEL_DEFAULT = ''gpt''\<rparr> 185 ''t1''
        (snd (rate_limit_run \<lparr>RATE_LIMIT_RPM = 2, OPENAI_MODEL_DEFAULT = ''gpt''\<rparr> ''t1'' [120, 130, 150] (\<lambda>k. None))))
       = Inr ()"
proof -
  have h: "\<forall>now\<in>set [120, 130, 150::real]. minute_window now = 2"
    by (simp add: minute_window_def)
  have h1: "minute_window 121 = 2" and h2: "minute_window 185 = 2 + 1"
    by (simp_all add: minute_window_def)
  note th = rate_limit_fixed_window [of "\<lambda>k. None" "''t1''" 2 "[120, 130, 150]" 121
      "\<lparr>RATE_LIMIT_RPM = 2, OPENAI_MODEL_DEFAULT = ''gpt''\<rparr>" 185, OF refl refl h]
  have l: "length (fst (rate_limit_run \<lparr>RATE_LIMIT_RPM = 2, OPENAI_MODEL_DEFAULT = ''gpt''\<rparr> ''t1'' [120, 130, 150] (\<lambda>k. None))) = 3"
    using th by simp
  have n: "\<forall>i<3. fst (rate_limit_run \<lparr>RATE_LIMIT_RPM = 2, OPENAI_MODEL_DEFAULT = ''gpt''\<rparr> ''t1'' [120, 130, 150] (\<lambda>k. None)) ! i =
     (if int i < 2 then Inr () else Inl (HTTPException 429 ''Rate limit exceeded''))"
    using th by simp
  have "fst (rate_limit_run \<lparr>RATE_LIMIT_RPM = 2, OPENAI_MODEL_DEFAULT = ''gpt''\<rparr> ''t1'' [120, 130, 150] (\<lambda>k. None))
       = [Inr (), Inr (), Inl (HTTPException 429 ''Rate limit exceeded'')]"
    by (rule nth_equalityI) (use l n in \<open>auto simp: less_Suc_eq numeral_3_eq_3\<close>)
  then show ?thesis using th h h1 h2 by simp
qed


section \<open>Usage aggregation\<close>

lemma coalesce_sql_sum: "coalesce (sql_sum xs) 0 = sum_list xs"
  by (simp add: coalesce_def sql_sum_def)

lemma messages_in_period_sum:
  "messages_in_period t s e rows =
     sum_list (map messages_count
       (filter (\<lambda>u. usage_tenant_id u = t \<and> s \<le> usage_date u \<and> usage_date u < e) rows))"
  by (simp add: messages_in_period_def coalesce_sql_sum)

lemma chars_for_project_sum:
  "chars_uploaded_for_project_in_period t p s e rows =
     sum_list (map chars_uploaded
       (filter (\<lambda>u. usage_tenant_id u = t \<and> usage_project_id u = p
                  \<and> s \<le> usage_date u \<and> usage_date u < e) rows))"
  by (simp add: chars_uploaded_for_project_in_period_def coalesce_sql_sum)

lemma chars_in_period_sum:
  "chars_uploaded_in_period t s e rows =
     sum_list (map chars_uploaded
       (filter (\<lambda>u. usage_tenant_id u = t \<and> s \<le> usage_date u \<and> usage_date u < e) rows))"
  by (simp add: chars_uploaded_in_period_def coalesce_sql_sum)

text \<open>
  C6. The period-scoped sums (\<open>messages_in_period\<close>, \<open>chars_uploaded_for_project_in_period\<close>,
  \<open>chars_uploaded_in_period\<close>) range over the half-open interval \<open>[start, end)\<close>. A usage
  row dated exactly on the period end contributes nothing: the sum is the same with and
  without it. A row of the tenant dated exactly on the period start of a period with
  \<open>start < end\<close> contributes its counter. Where no row of the table matches, and on the
  empty table, every sum is the integer 0.
\<close>

theorem period_sums_half_open:
  "(usage_date u = period_end \<longrightarrow>
       messages_in_period t period_start period_end (xs @ u # ys)
         = messages_in_period t period_start period_end (xs @ ys)
     \<and> chars_uploaded_for_project_in_period t p period_start period_end (xs @ u # ys)
         = chars_uploaded_for_project_in_period t p period_start period_end (xs @ ys)
     \<and> chars_uploaded_in_period t period_start period_end (xs @ u # ys)
         = chars_uploaded_in_period t period_start period_end (xs @ ys))
   \<and> (usage_date u = period_start \<and> period_start < period_end \<and> usage_tenant_id u = t \<longrightarrow>
       messages_in_period t period_start period_end (xs @ u # ys)
         = messages_count u + messages_in_period t period_start period_end (xs @ ys)
     \<and> chars_uploaded_in_period t period_start period_end (xs @ u # ys)
         = chars_uploaded u + chars_uploaded_in_period t period_start period_end (xs @ ys)
     \<and> (usage_project_id u = p \<longrightarrow>
          chars_uploaded_for_project_in_period t p period_start period_end (xs @ u # ys)
            = chars_uploaded u
              + chars_uploaded_for_project_in_period t p period_start period_end (xs @ ys)))
   \<and> ((\<forall>v \<in> set rows. usage_tenant_id v \<noteq> t \<or> usage_date v < period_start
                          \<or> period_end \<le> usage_date v) \<longrightarrow>
       messages_in_period t period_start period_end rows = 0
     \<and> chars_uploaded_for_project_in_period t p period_start period_end rows = 0
     \<and> chars_uploaded_in_period t period_start period_end rows = 0)
   \<and> messages_in_period t period_start period_end [] = 0
   \<and> chars_uploaded_for_project_in_period t p period_start period_end [] = 0
   \<and> chars_uploaded_in_period t period_start period_end [] = 0"
proof -
  have z: "(\<forall>v \<in> set rows. \<not> P v) \<Longrightarrow> sum_list (map f (filter P rows)) = 0"
    for P :: "usage_row \<Rightarrow> bool" and f :: "usage_row \<Rightarrow> int"
    by (simp add: filter_empty_conv[THEN iffD2])
  have a: "(\<forall>v \<in> set rows. usage_tenant_id v \<noteq> t \<or> usage_date v < period_start
                          \<or> period_end \<le> usage_date v) \<longrightarrow>
       messages_in_period t period_start period_end rows = 0
     \<and> chars_uploaded_for_project_in_period t p period_start period_end rows = 0
     \<and> chars_uploaded_in_period t period_start period_end rows = 0"
    unfolding messages_in_period_sum chars_for_project_sum chars_in_period_sum
    by (intro impI conjI z) auto
  show ?thesis using a
    unfolding messages_in_period_sum chars_for_project_sum chars_in_period_sum
    by simp
qed


theorem period_sums_half_open_witness:
  "messages_in_period ''t1'' 10 40
     [\<lparr>usage_date = 10, usage_tenant_id = ''t1'', usage_project_id = ''p1'',
       messages_count = 3, tokens_in = 0, tokens_out = 0, chars_uploaded = 7\<rparr>,
      \<lparr>usage_date = 40, usage_tenant_id = ''t1'', usage_project_id = ''p1'',
       messages_count = 5, tokens_in = 0, tokens_out = 0, chars_uploaded = 9\<rparr>] = 3
   \<and> chars_uploaded_for_project_in_period ''t1'' ''p1'' 10 40
     [\<lparr>usage_date = 10, usage_tenant_id = ''t1'', usage_project_id = ''p1'',
       messages_count = 3, tokens_in = 0, tokens_out = 0, chars_uploaded = 7\<rparr>,
      \<lparr>usage_date = 40, usage_tenant_id = ''t1'', usage_project_id = ''p1'',
       messages_count = 5, tokens_in = 0, tokens_out = 0, chars_uploaded = 9\<rparr>] = 7
   \<and> messages_in_period ''t1'' 10 40
     [\<lparr>usage_date = 9, usage_tenant_id = ''t1'', usage_project_id = ''p1'',
       messages_count = 4, tokens_in = 0, tokens_out = 0, chars_uploaded = 2\<rparr>] = 0"
proof -
  let ?a = "\<lparr>usage_date = 10, usage_tenant_id = ''t1'', usage_project_id = ''p1'',
       messages_count = 3, tokens_in = 0, tokens_out = 0, chars_uploaded = 7\<rparr>"
  let ?b = "\<lparr>usage_date = 40, usage_tenant_id = ''t1'', usage_project_id = ''p1'',
       messages_count = 5, tokens_in = 0, tokens_out = 0, chars_uploaded = 9\<rparr>"
  let ?c = "\<lparr>usage_date = 9, usage_tenant_id = ''t1'', usage_project_id = ''p1'',
       messages_count = 4, tokens_in = 0, tokens_out = 0, chars_uploaded = 2\<rparr>"
  note at_end = period_sums_half_open
    [where u = ?b and period_end = 40 and period_start = 10 and t = "''t1''" and p = "''p1''"
       and xs = "[?a]" and ys = "[]" and rows = "[?c]"]
  note at_start = period_sums_half_open
    [where u = ?a and period_end = 40 and period_start = 10 and t = "''t1''" and p = "''p1''"
       and xs = "[]" and ys = "[]" and rows = "[?c]"]
  have 1: "messages_in_period ''t1'' 10 40 [?a, ?b] = messages_in_period ''t1'' 10 40 [?a]"
    and 2: "chars_uploaded_for_project_in_period ''t1'' ''p1'' 10 40 [?a, ?b]
            = chars_uploaded_for_project_in_period ''t1'' ''p1'' 10 40 [?a]"
    using at_end by simp_all
  have 3: "messages_in_period ''t1'' 10 40 [?a] = 3"
    and 4: "chars_uploaded_for_project_in_period ''t1'' ''p1'' 10 40 [?a] = 7"
    using at_start by simp_all
  have 5: "messages_in_period ''t1'' 10 40 [?c] = 0"
    using at_end by simp
  show ?thesis using 1 2 3 4 5 by simp
qed

lemma upsert_filter_sum:
  fixes f :: "usage_row \<Rightarrow> int"
  assumes new: "f new = n" "P new = Q"
    and upd: "\<And>u. same_key u new \<Longrightarrow> f (upd u) = f u + n \<and> P (upd u) = Q \<and> P u = Q"
  shows "sum_list (map f (filter P (upsert_usage new upd rows)))
           = sum_list (map f (filter P rows)) + (if Q then n else 0)"
proof (induction rows)
  case Nil
  then show ?case using new by simp
next
  case (Cons u us)
  show ?case
  proof (cases "same_key u new")
    case True
    with upd[OF True] show ?thesis by (simp add: algebra_simps)
  next
    case False
    with Cons show ?thesis by simp
  qed
qed

lemma record_upload_chars_project_sum:
  "chars_uploaded_for_project_in_period t p s e (record_upload_chars today t p n rows)
     = chars_uploaded_for_project_in_period t p s e rows + (if s \<le> today \<and> today < e then n else 0)"
  unfolding chars_for_project_sum record_upload_chars_def
  by (rule upsert_filter_sum) (auto simp: same_key_def)

lemma increment_message_sum:
  "messages_in_period t s e (increment_message today t p ti to rows)
     = messages_in_period t s e rows + (if s \<le> today \<and> today < e then 1 else 0)"
  unfolding messages_in_period_sum increment_message_def
  by (rule upsert_filter_sum) (auto simp: same_key_def)

section \<open>The ask handler\<close>

lemma ask_rate_denied:
  "check_rate_limit cfg now t (redis w) = (Inl e, r1) \<Longrightarrow>
     ask cfg ext now today t key body w = (Inl e, w\<lparr>redis := r1\<rparr>)"
  by (simp add: ask_def)

lemma ask_duplicate_denied:
  "check_rate_limit cfg now t (redis w) = (Inr u, r1) \<Longrightarrow>
   ensure_idempotent now t key r1 = (Inl e, r2) \<Longrightarrow>
     ask cfg ext now today t key body w = (Inl e, w\<lparr>redis := r2\<rparr>)"
  by (simp add: ask_def)

lemma ask_admitted:
  "check_rate_limit cfg now t (redis w) = (Inr u, r1) \<Longrightarrow>
   ensure_idempotent now t key r1 = (Inr u2, r2) \<Longrightarrow>
     ask cfg ext now today t key body w = ask_checked cfg ext today t key body (w\<lparr>redis := r2\<rparr>)"
  by (simp add: ask_def)

lemma ask_checked_gate:
  assumes "get_by_id (projects w) (body_project_id body) = Inr (Some p)"
    and "p_tenant_id p = t" "vector_store_id p = Some vs" "vs \<noteq> []"
    and "subscriptions w t = Some sub" "plans w (sub_plan_id sub) = Some pl"
  shows "ask_checked cfg ext today t key body w =
     (if messages_in_period t (current_period_start sub) (current_period_end sub) (usage_daily w)
           \<ge> monthly_message_cap pl
      then (Inl (HTTPException 402 ''Monthly message cap reached. Upgrade plan.''), w)
      else ask_metered cfg ext today t key body vs w)"
  using assms by (simp add: ask_checked_def get_with_plan_def Let_def)

lemma ask_metered_log:
  "provider_log (snd (ask_metered cfg ext today t key body vs w))
     = provider_log w @ [FileSearch [vs] (question body) (OPENAI_MODEL_DEFAULT cfg)]"
  by (simp add: ask_metered_def Let_def split: sum.splits prod.splits)


lemma ask_metered_not_http:
  "fst (ask_metered cfg ext today t key body vs w) \<noteq> Inl (HTTPException c d)"
  by (simp add: ask_metered_def Let_def split: sum.splits prod.splits)

lemma ask_metered_failure:
  "responses_file_search ext [vs] (question body) (OPENAI_MODEL_DEFAULT cfg) = Inl msg \<Longrightarrow>
     fst (ask_metered cfg ext today t key body vs w) = Inl (UpstreamFailure msg)
     \<and> usage_daily (snd (ask_metered cfg ext today t key body vs w)) = usage_daily w"
  by (simp add: ask_metered_def Let_def)

lemma ask_metered_success:
  "responses_file_search ext [vs] (question body) (OPENAI_MODEL_DEFAULT cfg) = Inr (ans, raw) \<Longrightarrow>
     fst (ask_metered cfg ext today t key body vs w)
       = Inr \<lparr>answer = ans,
              resp_tokens_in = extract_usage_token (usage raw) ''input_tokens'',
              resp_tokens_out = extract_usage_token (usage raw) ''output_tokens'',
              resp_citations = extract_citations raw\<rparr>
     \<and> usage_daily (snd (ask_metered cfg ext today t key body vs w))
       = increment_message today t (body_project_id body)
           (extract_usage_token (usage raw) ''input_tokens'')
           (extract_usage_token (usage raw) ''output_tokens'') (usage_daily w)"
  by (simp add: ask_metered_def Let_def)

lemma ask_metered_error_usage:
  "fst (ask_metered cfg ext today t key body vs w) = Inl e \<Longrightarrow>
     usage_daily (snd (ask_metered cfg ext today t key body vs w)) = usage_daily w"
  by (simp add: ask_metered_def Let_def split: sum.splits prod.splits)

lemma ask_checked_http_unchanged:
  "fst (ask_checked cfg ext today t key body w) = Inl (HTTPException c d) \<Longrightarrow>
     snd (ask_checked cfg ext today t key body w) = w"
  by (auto simp add: ask_checked_def Let_def ask_metered_not_http
      split: sum.splits option.splits if_splits prod.splits)

lemma ask_checked_error_usage:
  "fst (ask_checked cfg ext today t key body w) = Inl e \<Longrightarrow>
     usage_daily (snd (ask_checked cfg ext today t key body w)) = usage_daily w"
  by (auto simp add: ask_checked_def Let_def ask_metered_error_usage
      split: sum.splits option.splits if_splits prod.splits)

text \<open>
  C1. Take an ask request that reaches the message gate: the rate limiter and the
  idempotency guard admit it, the project is the tenant's and has a vector store, and the
  tenant has a subscription whose plan exists. The request is denied with 402 "Monthly
  message cap reached" exactly when the sum of \<open>messages_count\<close> over the tenant's usage
  rows dated in \<open>[current_period_start, current_period_end)\<close> is at least the plan's
  \<open>monthly_message_cap\<close>. When it is denied, nothing but the counter store has changed: no
  message is stored, the provider is not called and the ledger is untouched. When the
  sum is below the cap, the provider is called, once.
\<close>

theorem message_gate:
  assumes "check_rate_limit cfg now t (redis w) = (Inr (), r1)"
    and "ensure_idempotent now t key r1 = (Inr (), r2)"
    and "get_by_id (projects w) (body_project_id body) = Inr (Some p)"
    and "p_tenant_id p = t" "vector_store_id p = Some vs" "vs \<noteq> []"
    and "subscriptions w t = Some sub" "plans w (sub_plan_id sub) = Some pl"
  shows "(fst (ask cfg ext now today t key body w)
            = Inl (HTTPException 402 ''Monthly message cap reached. Upgrade plan.'')
          \<longleftrightarrow> messages_in_period t (current_period_start sub) (current_period_end sub)
                (usage_daily w) \<ge> monthly_message_cap pl)
       \<and> (messages_in_period t (current_period_start sub) (current_period_end sub)
             (usage_daily w) \<ge> monthly_message_cap pl
           \<longrightarrow> snd (ask cfg ext now today t key body w) = w\<lparr>redis := r2\<rparr>)
       \<and> (messages_in_period t (current_period_start sub) (current_period_end sub)
             (usage_daily w) < monthly_message_cap pl
           \<longrightarrow> provider_log (snd (ask cfg ext now today t key body w))
                 = provider_log w @ [FileSearch [vs] (question body) (OPENAI_MODEL_DEFAULT cfg)])"
proof -
  let ?w = "w\<lparr>redis := r2\<rparr>"
  have a: "ask cfg ext now today t key body w = ask_checked cfg ext today t key body ?w"
    using assms(1,2) by (rule ask_admitted)
  have g: "ask_checked cfg ext today t key body ?w =
     (if messages_in_period t (current_period_start sub) (current_period_end sub) (usage_daily w)
           \<ge> monthly_message_cap pl
      then (Inl (HTTPException 402 ''Monthly message cap reached. Upgrade plan.''), ?w)
      else ask_metered cfg ext today t key body vs ?w)"
    using ask_checked_gate[of ?w body p t vs sub pl cfg ext today key] assms(3-8) by simp
  show ?thesis
    unfolding a g using ask_metered_not_http[of cfg ext today t key body vs ?w]
      ask_metered_log[of cfg ext today t key body vs ?w]
    by (simp del: One_nat_def)
qed


lemma ex_rate_ok:
  "check_rate_limit ex_cfg 125 ''t1'' (redis (ex_world rows))
     = (Inr (), [RL ''t1'' 2 \<mapsto> (1, Some 185)])"
  by (simp add: check_rate_limit_def redis_incr_def redis_expire_def redis_get_def
      minute_window_def ex_cfg_def ex_world_def)

lemma ex_project_found:
  "get_by_id (projects (ex_world rows)) ''p1'' = Inr (Some ex_project)"
  by (simp add: get_by_id_def scalar_one_or_none_def ex_world_def ex_project_def)

lemma ex_subscribed:
  "subscriptions (ex_world rows) ''t1'' = Some ex_subscription"
  "plans (ex_world rows) (sub_plan_id ex_subscription) = Some ex_plan"
  by (simp_all add: ex_world_def ex_subscription_def)

theorem message_gate_witness:
  "fst (ask ex_cfg ex_ext 125 12 ''t1'' None \<lparr>body_project_id = ''p1'', question = ''hi''\<rparr>
          (ex_world [ex_usage 2 0]))
     = Inl (HTTPException 402 ''Monthly message cap reached. Upgrade plan.'')
   \<and> provider_log (snd (ask ex_cfg ex_ext 125 12 ''t1'' None
          \<lparr>body_project_id = ''p1'', question = ''hi''\<rparr> (ex_world [ex_usage 2 0]))) = []
   \<and> provider_log (snd (ask ex_cfg ex_ext 125 12 ''t1'' None
          \<lparr>body_project_id = ''p1'', question = ''hi''\<rparr> (ex_world [ex_usage 1 0])))
     = [FileSearch [''vs1''] ''hi'' ''gpt'']"
proof -
  let ?r = "[RL ''t1'' 2 \<mapsto> (1::int, Some (185::real))]"
  let ?b = "\<lparr>body_project_id = ''p1'', question = ''hi''\<rparr>"
  have idem: "ensure_idempotent 125 ''t1'' None ?r = (Inr (), ?r)"
    by (simp add: ensure_idempotent_def)
  have pf: "get_by_id (projects (ex_world rows)) (body_project_id ?b) = Inr (Some ex_project)" for rows
    using ex_project_found by simp
  have pr: "p_tenant_id ex_project = ''t1''" "vector_store_id ex_project = Some ''vs1''" "''vs1'' \<noteq> []"
    by (simp_all add: ex_project_def)
  note full = message_gate [where w = "ex_world [ex_usage 2 0]" and ext = ex_ext and today = 12,
      OF ex_rate_ok idem pf pr ex_subscribed]
  note part = message_gate [where w = "ex_world [ex_usage 1 0]" and ext = ex_ext and today = 12,
      OF ex_rate_ok idem pf pr ex_subscribed]
  have u2: "messages_in_period ''t1'' (current_period_start ex_subscription)
              (current_period_end ex_subscription) (usage_daily (ex_world [ex_usage 2 0])) = 2"
    and u1: "messages_in_period ''t1'' (current_period_start ex_subscription)
              (current_period_end ex_subscription) (usage_daily (ex_world [ex_usage 1 0])) = 1"
    by (simp_all add: messages_in_period_sum ex_subscription_def ex_world_def ex_usage_def)
  have cap: "monthly_message_cap ex_plan = 2" by (simp add: ex_plan_def)
  have lg: "provider_log (ex_world rows) = []" for rows by (simp add: ex_world_def)
  have cf: "OPENAI_MODEL_DEFAULT ex_cfg = ''gpt''" by (simp add: ex_cfg_def)
  from full have "fst (ask ex_cfg ex_ext 125 12 ''t1'' None ?b (ex_world [ex_usage 2 0]))
     = Inl (HTTPException 402 ''Monthly message cap reached. Upgrade plan.'')"
    and "snd (ask ex_cfg ex_ext 125 12 ''t1'' None ?b (ex_world [ex_usage 2 0]))
           = (ex_world [ex_usage 2 0])\<lparr>redis := ?r\<rparr>"
    unfolding u2 cap by simp_all
  moreover from part have "provider_log (snd (ask ex_cfg ex_ext 125 12 ''t1'' None ?b (ex_world [ex_usage 1 0])))
     = [FileSearch [''vs1''] ''hi'' ''gpt'']"
    unfolding u1 cap lg cf by simp
  ultimately show ?thesis by (simp add: lg)
qed

text \<open>
  C5. When the provider call of an ask request fails, the failure is the result of the
  request as it is, and the usage ledger is the one before the request: the increment
  runs only after the provider returned. More generally, an ask request that ends in
  any error leaves the ledger as it was, and one that succeeds has incremented it once,
  with the token counts of the reply.
\<close>

theorem upstream_failure_leaves_usage:
  assumes "check_rate_limit cfg now t (redis w) = (Inr (), r1)"
    and "ensure_idempotent now t key r1 = (Inr (), r2)"
    and "get_by_id (projects w) (body_project_id body) = Inr (Some p)"
    and "p_tenant_id p = t" "vector_store_id p = Some vs" "vs \<noteq> []"
    and "subscriptions w t = Some sub" "plans w (sub_plan_id sub) = Some pl"
    and "messages_in_period t (current_period_start sub) (current_period_end sub) (usage_daily w)
           < monthly_message_cap pl"
  shows "(responses_file_search ext [vs] (question body) (OPENAI_MODEL_DEFAULT cfg) = Inl msg \<longrightarrow>
            fst (ask cfg ext now today t key body w) = Inl (UpstreamFailure msg)
          \<and> usage_daily (snd (ask cfg ext now today t key body w)) = usage_daily w
          \<and> messages_in_period t' s e (usage_daily (snd (ask cfg ext now today t key body w)))
              = messages_in_period t' s e (usage_daily w))
       \<and> (responses_file_search ext [vs] (question body) (OPENAI_MODEL_DEFAULT cfg) = Inr (ans, raw) \<longrightarrow>
            usage_daily (snd (ask cfg ext now today t key body w))
              = increment_message today t (body_project_id body)
                  (extract_usage_token (usage raw) ''input_tokens'')
                  (extract_usage_token (usage raw) ''output_tokens'') (usage_daily w))
       \<and> (\<forall>err. fst (ask cfg ext now today t key body w) = Inl err \<longrightarrow>
            usage_daily (snd (ask cfg ext now today t key body w)) = usage_daily w)"
proof -
  let ?w = "w\<lparr>redis := r2\<rparr>"
  have a: "ask cfg ext now today t key body w = ask_checked cfg ext today t key body ?w"
    using assms(1,2) by (rule ask_admitted)
  have g: "ask_checked cfg ext today t key body ?w = ask_metered cfg ext today t key body vs ?w"
    using ask_checked_gate[of ?w body p t vs sub pl cfg ext today key] assms(3-9) by simp
  show ?thesis
    unfolding a g
    using ask_metered_failure[of ext vs body cfg msg today t key ?w]
      ask_metered_success[of ext vs body cfg ans raw today t key ?w]
      ask_metered_error_usage[of cfg ext today t key body vs ?w]
    by simp
qed

theorem upstream_failure_leaves_usage_witness:
  "fst (ask ex_cfg ex_ext 125 12 ''t1'' None \<lparr>body_project_id = ''p1'', question = ''boom''\<rparr>
          (ex_world [ex_usage 1 0])) = Inl (UpstreamFailure ''provider down'')
   \<and> usage_daily (snd (ask ex_cfg ex_ext 125 12 ''t1'' None
          \<lparr>body_project_id = ''p1'', question = ''boom''\<rparr> (ex_world [ex_usage 1 0])))
       = [ex_usage 1 0]
   \<and> usage_daily (snd (ask ex_cfg ex_ext 125 12 ''t1'' None
          \<lparr>body_project_id = ''p1'', question = ''hi''\<rparr> (ex_world [ex_usage 1 0])))
       = [(ex_usage 2 0)\<lparr>tokens_in := 2, tokens_out := 3\<rparr>]"
proof -
  let ?r = "[RL ''t1'' 2 \<mapsto> (1::int, Some (185::real))]"
  let ?b = "\<lparr>body_project_id = ''p1'', question = ''boom''\<rparr>"
  let ?c = "\<lparr>body_project_id = ''p1'', question = ''hi''\<rparr>"
  have idem: "ensure_idempotent 125 ''t1'' None ?r = (Inr (), ?r)"
    by (simp add: ensure_idempotent_def)
  have pf: "get_by_id (projects (ex_world rows)) (body_project_id ?b) = Inr (Some ex_project)"
    and pf': "get_by_id (projects (ex_world rows)) (body_project_id ?c) = Inr (Some ex_project)" for rows
    using ex_project_found by simp_all
  have pr: "p_tenant_id ex_project = ''t1''" "vector_store_id ex_project = Some ''vs1''" "''vs1'' \<noteq> []"
    by (simp_all add: ex_project_def)
  have u1: "messages_in_period ''t1'' (current_period_start ex_subscription)
              (current_period_end ex_subscription) (usage_daily (ex_world [ex_usage 1 0]))
             < monthly_message_cap ex_plan"
    by (simp add: messages_in_period_sum ex_subscription_def ex_world_def ex_usage_def ex_plan_def)
  have f: "responses_file_search ex_ext [''vs1''] (question ?b) (OPENAI_MODEL_DEFAULT ex_cfg)
             = Inl ''provider down''"
    by (simp add: ex_ext_def)
  have ok: "responses_file_search ex_ext [''vs1''] (question ?c) (OPENAI_MODEL_DEFAULT ex_cfg)
             = Inr (''fine'', \<lparr>usage = Some [''input_tokens'' \<mapsto> 2, ''output_tokens'' \<mapsto> 3],
                                        file_citations = []\<rparr>)"
    by (simp add: ex_ext_def)
  note fail = upstream_failure_leaves_usage [where ext = ex_ext and msg = "''provider down''"
      and today = 12, OF ex_rate_ok idem pf pr ex_subscribed u1]
  note succ = upstream_failure_leaves_usage [where ext = ex_ext and today = 12 and ans = "''fine''"
      and raw = "\<lparr>usage = Some [''input_tokens'' \<mapsto> 2, ''output_tokens'' \<mapsto> 3], file_citations = []\<rparr>",
      OF ex_rate_ok idem pf' pr ex_subscribed u1]
  have ud: "usage_daily (ex_world rows) = rows" for rows by (simp add: ex_world_def)
  have inc: "increment_message 12 ''t1'' ''p1'' 2 3 [ex_usage 1 0]
      = [(ex_usage 2 0)\<lparr>tokens_in := 2, tokens_out := 3\<rparr>]"
    by (simp add: increment_message_def same_key_def ex_usage_def)
  from fail f have "fst (ask ex_cfg ex_ext 125 12 ''t1'' None ?b (ex_world [ex_usage 1 0]))
       = Inl (UpstreamFailure ''provider down'')"
    and "usage_daily (snd (ask ex_cfg ex_ext 125 12 ''t1'' None ?b (ex_world [ex_usage 1 0]))) = [ex_usage 1 0]"
    by (simp_all add: ud)
  moreover from succ ok have "usage_daily (snd (ask ex_cfg ex_ext 125 12 ''t1'' None ?c (ex_world [ex_usage 1 0])))
       = [(ex_usage 2 0)\<lparr>tokens_in := 2, tokens_out := 3\<rparr>]"
    by (simp add: ud inc extract_usage_token_def)
  ultimately show ?thesis by simp
qed

section \<open>The idempotency guard\<close>

lemma crl_error:
  "check_rate_limit cfg now t r = (Inl e, r') \<Longrightarrow> e = HTTPException 429 ''Rate limit exceeded''"
  by (auto simp add: check_rate_limit_def Let_def split: prod.splits if_splits)

lemma idem_error:
  "ensure_idempotent now t key r = (Inl e, r') \<Longrightarrow>
     e = HTTPException 409 ''Duplicate request (idempotency)''"
  by (auto simp add: ensure_idempotent_def Let_def split: option.splits prod.splits if_splits)

lemma idem_fresh:
  "k \<noteq> [] \<Longrightarrow> redis_get now r (IDEMP t k) = None \<Longrightarrow>
     ensure_idempotent now t (Some k) r = (Inr (), r(IDEMP t k \<mapsto> (1, Some (now + 1800))))"
  by (simp add: ensure_idempotent_def redis_set_nx_ex_def)

lemma idem_claimed:
  "k \<noteq> [] \<Longrightarrow> redis_get now r (IDEMP t k) \<noteq> None \<Longrightarrow>
     ensure_idempotent now t (Some k) r
       = (Inl (HTTPException 409 ''Duplicate request (idempotency)''), r)"
  by (auto simp add: ensure_idempotent_def redis_set_nx_ex_def)

lemma idem_admitted:
  assumes "k \<noteq> []" "ensure_idempotent now t (Some k) r = (Inr u, r')"
  shows "r' = r(IDEMP t k \<mapsto> (1, Some (now + 1800)))"
proof (cases "redis_get now r (IDEMP t k)")
  case None
  with idem_fresh[OF assms(1) this] assms(2) show ?thesis by simp
next
  case (Some a)
  then have "redis_get now r (IDEMP t k) \<noteq> None" by simp
  from idem_claimed[OF assms(1) this] assms(2) show ?thesis by simp
qed


text \<open>
  C10. Take an ask request with a key \<open>k\<close> that the rate limiter admits and that is then
  denied before the metered action: project not found, vector store missing, no active
  subscription, plan data missing or message cap reached. The request has performed no
  action (no provider call, no message, no usage), yet the claim of \<open>(tenant, k)\<close> is in
  the store with its 30-minute expiry. So a retry with the same key less than 30 minutes
  later, once the rate limiter admits it, is denied with 409 "Duplicate request
  (idempotency)", and again nothing is performed.
\<close>

theorem claimed_key_blocks_retry:
  assumes k: "k \<noteq> []"
    and first: "ask cfg ext now today t (Some k) body w = (Inl e, w')"
    and e: "e = HTTPException 404 ''Project not found''
          \<or> e = HTTPException 400 ''Vector store missing. Ingest files first.''
          \<or> e = HTTPException 403 ''No active subscription''
          \<or> e = HTTPException 500 ''Subscription plan data missing''
          \<or> e = HTTPException 402 ''Monthly message cap reached. Upgrade plan.''"
    and later: "now \<le> now'" "now' < now + 30 * 60"
    and admitted: "fst (check_rate_limit cfg now' t (redis w')) = Inr ()"
  shows "redis w' (IDEMP t k) = Some (1, Some (now + 30 * 60))
       \<and> provider_log w' = provider_log w \<and> usage_daily w' = usage_daily w
       \<and> messages w' = messages w
       \<and> fst (ask cfg ext now' today' t (Some k) body' w')
           = Inl (HTTPException 409 ''Duplicate request (idempotency)'')
       \<and> provider_log (snd (ask cfg ext now' today' t (Some k) body' w')) = provider_log w
       \<and> usage_daily (snd (ask cfg ext now' today' t (Some k) body' w')) = usage_daily w"
proof -
  obtain c d where http: "e = HTTPException c d" and c: "c \<noteq> 429" "c \<noteq> 409"
    using e by auto
  obtain a r1 where rl: "check_rate_limit cfg now t (redis w) = (a, r1)"
    by (cases "check_rate_limit cfg now t (redis w)")
  have "\<exists>u. a = Inr u"
  proof (cases a)
    case (Inl x)
    with rl crl_error[of cfg now t "redis w" x r1] ask_rate_denied[of cfg now t w x r1 ext today "Some k" body]
      first http c show ?thesis by simp
  qed simp
  then have rl': "check_rate_limit cfg now t (redis w) = (Inr (), r1)" using rl by auto
  obtain b r2 where idm: "ensure_idempotent now t (Some k) r1 = (b, r2)"
    by (cases "ensure_idempotent now t (Some k) r1")
  have "\<exists>u. b = Inr u"
  proof (cases b)
    case (Inl x)
    with idm idem_error[of now t "Some k" r1 x r2]
      ask_duplicate_denied[of cfg now t w "()" r1 "Some k" x r2 ext today body] rl'
      first http c show ?thesis by simp
  qed simp
  then have idm': "ensure_idempotent now t (Some k) r1 = (Inr (), r2)" using idm by auto
  have r2: "r2 = r1(IDEMP t k \<mapsto> (1, Some (now + 1800)))"
    using idem_admitted[OF k idm'] .
  let ?w = "w\<lparr>redis := r2\<rparr>"
  have chk: "ask_checked cfg ext today t (Some k) body ?w = (Inl e, w')"
    using ask_admitted[OF rl' idm', of ext today body] first by simp
  then have w': "w' = ?w"
    using ask_checked_http_unchanged[of cfg ext today t "Some k" body ?w c d] http by simp
  obtain r3 where rl2: "check_rate_limit cfg now' t (redis w') = (Inr (), r3)"
    using admitted by (cases "check_rate_limit cfg now' t (redis w')") auto
  have "r3 (IDEMP t k) = redis w' (IDEMP t k)"
    using crl_other[of "IDEMP t k" t now' cfg "redis w'"] rl2 by simp
  then have live: "redis_get now' r3 (IDEMP t k) \<noteq> None"
    using w' r2 later by (simp add: redis_get_def)
  have dup: "ask cfg ext now' today' t (Some k) body' w'
       = (Inl (HTTPException 409 ''Duplicate request (idempotency)''), w'\<lparr>redis := r3\<rparr>)"
    using ask_duplicate_denied[OF rl2 idem_claimed[OF k live]] .
  show ?thesis unfolding dup using w' r2 by simp
qed

theorem claimed_key_blocks_retry_witness:
  "ask ex_cfg ex_ext 125 12 ''t1'' (Some ''abc'') \<lparr>body_project_id = ''p1'', question = ''hi''\<rparr>
        (ex_world [ex_usage 2 0])
     = (Inl (HTTPException 402 ''Monthly message cap reached. Upgrade plan.''),
        (ex_world [ex_usage 2 0])\<lparr>redis := [RL ''t1'' 2 \<mapsto> (1, Some 185),
                                              IDEMP ''t1'' ''abc'' \<mapsto> (1, Some 1925)]\<rparr>)
   \<and> fst (ask ex_cfg ex_ext 130 12 ''t1'' (Some ''abc'')
            \<lparr>body_project_id = ''p1'', question = ''hi''\<rparr>
            ((ex_world [ex_usage 2 0])\<lparr>redis := [RL ''t1'' 2 \<mapsto> (1, Some 185),
                                                  IDEMP ''t1'' ''abc'' \<mapsto> (1, Some 1925)]\<rparr>))
     = Inl (HTTPException 409 ''Duplicate request (idempotency)'')"
proof -
  let ?b = "\<lparr>body_project_id = ''p1'', question = ''hi''\<rparr>"
  let ?r1 = "[RL ''t1'' 2 \<mapsto> (1::int, Some (185::real))]"
  let ?r2 = "[RL ''t1'' 2 \<mapsto> (1::int, Some (185::real)), IDEMP ''t1'' ''abc'' \<mapsto> (1, Some 1925)]"
  let ?w = "ex_world [ex_usage 2 0]"
  let ?w' = "?w\<lparr>redis := ?r2\<rparr>"
  have idem: "ensure_idempotent 125 ''t1'' (Some ''abc'') ?r1 = (Inr (), ?r2)"
    by (simp add: ensure_idempotent_def redis_set_nx_ex_def redis_get_def)
  have pf: "get_by_id (projects ?w') (body_project_id ?b) = Inr (Some ex_project)"
    using ex_project_found[of "[ex_usage 2 0]"] by simp
  have pr: "p_tenant_id ex_project = ''t1''" "vector_store_id ex_project = Some ''vs1''" "''vs1'' \<noteq> []"
    by (simp_all add: ex_project_def)
  have sb: "subscriptions ?w' ''t1'' = Some ex_subscription"
    "plans ?w' (sub_plan_id ex_subscription) = Some ex_plan"
    using ex_subscribed[of "[ex_usage 2 0]"] by simp_all
  have used: "messages_in_period ''t1'' (current_period_start ex_subscription)
              (current_period_end ex_subscription) (usage_daily ?w') \<ge> monthly_message_cap ex_plan"
    by (simp add: messages_in_period_sum ex_subscription_def ex_world_def ex_usage_def ex_plan_def)
  have first: "ask ex_cfg ex_ext 125 12 ''t1'' (Some ''abc'') ?b ?w
      = (Inl (HTTPException 402 ''Monthly message cap reached. Upgrade plan.''), ?w')"
    using ask_admitted[OF ex_rate_ok idem, of ex_ext 12 ?b]
      ask_checked_gate[OF pf pr sb, of ex_cfg ex_ext 12 "Some ''abc''"] used
    by simp
  have adm: "fst (check_rate_limit ex_cfg 130 ''t1'' (redis ?w')) = Inr ()"
    by (simp add: check_rate_limit_def redis_incr_def redis_expire_def redis_get_def
      minute_window_def ex_cfg_def)
  have "fst (ask ex_cfg ex_ext 130 12 ''t1'' (Some ''abc'') ?b ?w')
     = Inl (HTTPException 409 ''Duplicate request (idempotency)'')"
    using claimed_key_blocks_retry [where k = "''abc''" and now = 125 and now' = 130
        and today' = 12 and body' = ?b, OF _ first _ _ _ adm]
    by simp
  with first show ?thesis by simp
qed

section \<open>The order of the checks\<close>







section \<open>Project creation\<close>



lemma ex_uuid: "UUID ex_ext ''t1'' = Some ''t1''" "UUID ex_ext ''p1'' = Some ''p1''"
  by (simp_all add: ex_ext_def)


section \<open>The character count of an upload\<close>

lemma decode_never_fails: "decode_utf8_ignore bs \<noteq> Inl err"
  by (simp add: decode_utf8_ignore_def)

lemma read_files_total:
  "fst (read_files files n acc)
     = n + (\<Sum>f\<leftarrow>files. int (length (utf8_decode_ignore (file_bytes f))))"
  by (induction files arbitrary: n acc) (simp_all add: decode_utf8_ignore_def Let_def)

lemma strict_then_ignore: "utf8_decode_strict bs = Some s \<Longrightarrow> utf8_decode_ignore bs = s"
proof (induction bs arbitrary: s rule: utf8_decode_ignore.induct)
  case 1
  then show ?case by simp
next
  case (2 ch rest)
  show ?case
  proof (cases "utf8_step ch rest")
    case (Decoded cp n)
    with "2.prems" obtain s' where s': "utf8_decode_strict (drop (n - 1) rest) = Some s'" "s = cp # s'"
      by auto
    from "2.IH"(1)[OF Decoded s'(1)] Decoded s'(2) show ?thesis by simp
  next
    case (Illformed n)
    with "2.prems" show ?thesis by simp
  qed
qed

text \<open>
  C9, as stated, fails on a file that is not UTF-8: the bytes \<open>68 69 FF\<close> (the text
  \<open>hi\<close> followed by a byte that no UTF-8 sequence contains) do not decode as UTF-8, the
  raw byte length is 3, and the handler counts 2: the byte \<open>FF\<close> is dropped.
\<close>

theorem byte_length_fallback_counterexample:
  "utf8_decode_strict [0x68, 0x69, 0xFF] = None
   \<and> int (length [0x68, 0x69, 0xFF :: 8 word]) = 3
   \<and> fst (read_files [\<lparr>filename = Some ''a.bin'', file_bytes = [0x68, 0x69, 0xFF],
                        content_type = None\<rparr>] 0 []) = 2"
  by (simp add: utf8_step_def decode_utf8_ignore_def)

text \<open>
  C9, amended. The character count that the upload gate compares with the cap is the sum,
  over all files of the batch, of the number of code points that decoding the file as
  UTF-8 with the \<open>ignore\<close> error handler yields: ill-formed bytes are dropped and not
  counted. For a file that is valid UTF-8 this is the length of the decoded text. The
  decoding never fails, so the raw byte length is never used.
\<close>

theorem upload_char_count:
  "fst (read_files files 0 [])
     = (\<Sum>f\<leftarrow>files. int (length (utf8_decode_ignore (file_bytes f))))
   \<and> (utf8_decode_strict bs = Some s \<longrightarrow> utf8_decode_ignore bs = s)
   \<and> decode_utf8_ignore bs \<noteq> Inl err"
  using read_files_total[of files 0 "[]"] strict_then_ignore[of bs s] decode_never_fails[of bs err]
  by simp

theorem upload_char_count_witness:
  "utf8_decode_strict [0x68, 0xC3, 0xA9] = Some [0x68, 0xE9]
   \<and> fst (read_files [\<lparr>filename = Some ''a.txt'', file_bytes = [0x68, 0xC3, 0xA9],
                        content_type = None\<rparr>,
                       \<lparr>filename = None, file_bytes = [0xFF, 0x41], content_type = None\<rparr>] 0 [])
       = 3"
proof -
  have s: "utf8_decode_strict [0x68, 0xC3, 0xA9] = Some [0x68, 0xE9]"
    by (simp add: utf8_step_def is_continuation_byte_def)
  have i: "utf8_decode_ignore [0xFF, 0x41] = [0x41]"
    by (simp add: utf8_step_def)
  note t = upload_char_count [where bs = "[0x68, 0xC3, 0xA9]" and s = "[0x68, 0xE9]"
      and files = "[\<lparr>filename = Some ''a.txt'', file_bytes = [0x68, 0xC3, 0xA9],
                        content_type = None\<rparr>,
                       \<lparr>filename = None, file_bytes = [0xFF, 0x41], content_type = None\<rparr>]"]
  from t s have "utf8_decode_ignore [0x68, 0xC3, 0xA9] = [0x68, 0xE9]" by blast
  with t i s show ?thesis by simp
qed

section \<open>The upload handler\<close>

lemma upload_admitted:
  assumes "files \<noteq> []" "UUID ext tid = Some t" "UUID ext pid = Some pu"
    and "check_rate_limit cfg now t (redis w) = (Inr (), rr)"
  shows "upload_and_attach cfg ext now today t tid pid files w
           = upload_checked ext today t pu files (w\<lparr>redis := rr\<rparr>)"
  using assms by (simp add: upload_and_attach_def parse_uuid_def)

lemma upload_checked_gate:
  assumes "get_by_id (projects w) pu = Inr (Some p)"
    and "p_tenant_id p = t" "vector_store_id p = Some vs" "vs \<noteq> []"
    and "subscriptions w t = Some sub" "plans w (sub_plan_id sub) = Some pl"
  shows "upload_checked ext today t pu files w =
     (if chars_uploaded_for_project_in_period t pu (current_period_start sub)
           (current_period_end sub) (usage_daily w) + fst (read_files files 0 [])
           > monthly_upload_char_cap pl
      then (Inl (HTTPException 402
              ''Upload character cap exceeded for this billing period. Upgrade your plan.''), w)
      else upload_metered ext today t pu p vs (fst (read_files files 0 []))
             (snd (read_files files 0 [])) w)"
  using assms
  by (simp add: upload_checked_def get_with_plan_def Let_def case_prod_beta)

lemma upload_metered_not_http:
  "fst (upload_metered ext today t pu p vs n payload w) \<noteq> Inl (HTTPException c d)"
  by (simp add: upload_metered_def Let_def split: sum.splits)

lemma upload_metered_success:
  assumes "upload_files_to_openai ext payload = Inr ids" "attach_files_batch ext vs ids = Inr b"
  shows "fst (upload_metered ext today t pu p vs n payload w)
           = Inr \<lparr>up_project_id = p_id p, up_vector_store_id = vector_store_id p,
                  up_batch_status = batch_status b, up_file_counts = batch_file_counts b\<rparr>"
    and "usage_daily (snd (upload_metered ext today t pu p vs n payload w))
           = (if n \<noteq> 0 then record_upload_chars today t pu n (usage_daily w) else usage_daily w)"
  using assms by (simp_all add: upload_metered_def Let_def)

lemma upload_metered_error_usage:
  "fst (upload_metered ext today t pu p vs n payload w) = Inl e \<Longrightarrow>
     usage_daily (snd (upload_metered ext today t pu p vs n payload w)) = usage_daily w"
  by (simp add: upload_metered_def Let_def split: sum.splits)

lemma recorded_sum:
  "chars_uploaded_for_project_in_period t pu s e
      (if n \<noteq> 0 then record_upload_chars today t pu n rows else rows)
     = chars_uploaded_for_project_in_period t pu s e rows
       + (if s \<le> today \<and> today < e then n else 0)"
  by (simp add: record_upload_chars_project_sum)

text \<open>
  C2. Take an upload request that reaches the upload gate: files are given, the
  identifiers parse, the tenant is the caller's, the rate limiter admits the request, the
  project is the tenant's and has a vector store, and the tenant has a subscription whose
  plan exists. Let \<open>total\<close> be the character count of the whole batch and \<open>already\<close> the
  characters recorded for this tenant and project in the current period. When
  \<open>already + total\<close> exceeds \<open>monthly_upload_char_cap\<close>, the whole batch is denied with 402
  "Upload character cap exceeded" and nothing but the rate counter has changed: the
  provider is not called and the ledger records no character. When \<open>already + total\<close> is
  at most the cap, the gate lets the batch through; once the provider has taken the
  files, the request succeeds and the ledger holds \<open>total\<close> more characters for this
  tenant and project on today's date, so every period sum that contains today grows by
  exactly \<open>total\<close>. A batch that the provider refuses is recorded with no character.
\<close>

theorem upload_gate:
  assumes "files \<noteq> []" "UUID ext tid = Some t" "UUID ext pid = Some pu"
    and "check_rate_limit cfg now t (redis w) = (Inr (), rr)"
    and "get_by_id (projects w) pu = Inr (Some p)"
    and "p_tenant_id p = t" "vector_store_id p = Some vs" "vs \<noteq> []"
    and "subscriptions w t = Some sub" "plans w (sub_plan_id sub) = Some pl"
  shows "(chars_uploaded_for_project_in_period t pu (current_period_start sub)
             (current_period_end sub) (usage_daily w) + fst (read_files files 0 [])
             > monthly_upload_char_cap pl \<longrightarrow>
            upload_and_attach cfg ext now today t tid pid files w
              = (Inl (HTTPException 402
                   ''Upload character cap exceeded for this billing period. Upgrade your plan.''),
                 w\<lparr>redis := rr\<rparr>))
       \<and> (chars_uploaded_for_project_in_period t pu (current_period_start sub)
             (current_period_end sub) (usage_daily w) + fst (read_files files 0 [])
             \<le> monthly_upload_char_cap pl \<longrightarrow>
            fst (upload_and_attach cfg ext now today t tid pid files w)
              \<noteq> Inl (HTTPException 402
                   ''Upload character cap exceeded for this billing period. Upgrade your plan.'')
          \<and> (upload_files_to_openai ext (snd (read_files files 0 [])) = Inr ids
               \<and> attach_files_batch ext vs ids = Inr b \<longrightarrow>
               fst (upload_and_attach cfg ext now today t tid pid files w)
                 = Inr \<lparr>up_project_id = p_id p, up_vector_store_id = vector_store_id p,
                        up_batch_status = batch_status b, up_file_counts = batch_file_counts b\<rparr>
             \<and> (s \<le> today \<and> today < e \<longrightarrow>
                  chars_uploaded_for_project_in_period t pu s e
                    (usage_daily (snd (upload_and_attach cfg ext now today t tid pid files w)))
                  = chars_uploaded_for_project_in_period t pu s e (usage_daily w)
                    + fst (read_files files 0 [])))
          \<and> (\<forall>err. fst (upload_and_attach cfg ext now today t tid pid files w) = Inl err \<longrightarrow>
                usage_daily (snd (upload_and_attach cfg ext now today t tid pid files w))
                  = usage_daily w))"
proof -
  let ?w = "w\<lparr>redis := rr\<rparr>"
  let ?n = "fst (read_files files 0 [])"
  let ?pl = "snd (read_files files 0 [])"
  have a: "upload_and_attach cfg ext now today t tid pid files w
             = upload_checked ext today t pu files ?w"
    using assms(1-4) by (rule upload_admitted)
  have g: "upload_checked ext today t pu files ?w =
     (if chars_uploaded_for_project_in_period t pu (current_period_start sub)
           (current_period_end sub) (usage_daily w) + ?n > monthly_upload_char_cap pl
      then (Inl (HTTPException 402
              ''Upload character cap exceeded for this billing period. Upgrade your plan.''), ?w)
      else upload_metered ext today t pu p vs ?n ?pl ?w)"
    using upload_checked_gate[of ?w pu p t vs sub pl ext today files] assms(5-10) by simp
  let ?m = "upload_metered ext today t pu p vs ?n ?pl ?w"
  have nh: "fst ?m \<noteq> Inl (HTTPException 402
                   ''Upload character cap exceeded for this billing period. Upgrade your plan.'')"
    by (rule upload_metered_not_http)
  have eu: "\<forall>err. fst ?m = Inl err \<longrightarrow> usage_daily (snd ?m) = usage_daily w"
    using upload_metered_error_usage[of ext today t pu p vs ?n ?pl ?w] by simp
  have ok: "upload_files_to_openai ext ?pl = Inr ids \<and> attach_files_batch ext vs ids = Inr b \<longrightarrow>
       fst ?m = Inr \<lparr>up_project_id = p_id p, up_vector_store_id = vector_store_id p,
                      up_batch_status = batch_status b, up_file_counts = batch_file_counts b\<rparr>
     \<and> (s \<le> today \<and> today < e \<longrightarrow>
          chars_uploaded_for_project_in_period t pu s e (usage_daily (snd ?m))
            = chars_uploaded_for_project_in_period t pu s e (usage_daily w) + ?n)"
  proof (intro impI conjI)
    assume u: "upload_files_to_openai ext ?pl = Inr ids \<and> attach_files_batch ext vs ids = Inr b"
    then show "fst ?m = Inr \<lparr>up_project_id = p_id p, up_vector_store_id = vector_store_id p,
                      up_batch_status = batch_status b, up_file_counts = batch_file_counts b\<rparr>"
      using upload_metered_success(1)[of ext ?pl ids vs b today t pu p ?n ?w] by simp
    assume d: "s \<le> today \<and> today < e"
    have "usage_daily (snd ?m)
            = (if ?n \<noteq> 0 then record_upload_chars today t pu ?n (usage_daily w) else usage_daily w)"
      using upload_metered_success(2)[of ext ?pl ids vs b today t pu p ?n ?w] u by simp
    then show "chars_uploaded_for_project_in_period t pu s e (usage_daily (snd ?m))
            = chars_uploaded_for_project_in_period t pu s e (usage_daily w) + ?n"
      using recorded_sum[of t pu s e ?n today "usage_daily w"] d by simp
  qed
  show ?thesis
  proof (cases "chars_uploaded_for_project_in_period t pu (current_period_start sub)
           (current_period_end sub) (usage_daily w) + ?n > monthly_upload_char_cap pl")
    case True
    then show ?thesis unfolding a g by simp
  next
    case False
    then have m: "upload_and_attach cfg ext now today t tid pid files w = ?m"
      unfolding a g by simp
    from False nh eu ok show ?thesis unfolding m by blast
  qed
qed


theorem upload_gate_witness:
  "upload_and_attach ex_cfg ex_ext 125 12 ''t1'' ''t1'' ''p1''
      [\<lparr>filename = Some ''test.txt'',
        file_bytes = [0x68, 0x65, 0x6C, 0x6C, 0x6F, 0x20, 0x77, 0x6F, 0x72, 0x6C, 0x64],
        content_type = Some ''text/plain''\<rparr>]
      (ex_world [ex_usage 0 9])
     = (Inl (HTTPException 402
          ''Upload character cap exceeded for this billing period. Upgrade your plan.''),
        (ex_world [ex_usage 0 9])\<lparr>redis := [RL ''t1'' 2 \<mapsto> (1, Some 185)]\<rparr>)
   \<and> chars_uploaded_for_project_in_period ''t1'' ''p1'' 10 40
        (usage_daily (snd (upload_and_attach ex_cfg ex_ext 125 12 ''t1'' ''t1'' ''p1''
           [\<lparr>filename = Some ''a.txt'', file_bytes = [0x61], content_type = None\<rparr>]
           (ex_world [ex_usage 0 9]))))
     = 10"
proof -
  let ?w = "ex_world [ex_usage 0 9]"
  let ?big = "[\<lparr>filename = Some ''test.txt'',
        file_bytes = [0x68, 0x65, 0x6C, 0x6C, 0x6F, 0x20, 0x77, 0x6F, 0x72, 0x6C, 0x64],
        content_type = Some ''text/plain''\<rparr>]"
  let ?small = "[\<lparr>filename = Some ''a.txt'', file_bytes = [0x61], content_type = None\<rparr>]"
  have pr: "p_tenant_id ex_project = ''t1''" "vector_store_id ex_project = Some ''vs1''" "''vs1'' \<noteq> []"
    by (simp_all add: ex_project_def)
  have nb: "fst (read_files ?big 0 []) = 11"
    by (simp add: decode_utf8_ignore_def utf8_step_def)
  have ns: "fst (read_files ?small 0 []) = 1"
    and ps: "snd (read_files ?small 0 []) = [(''a.txt'', [0x61], ''application/octet-stream'')]"
    by (simp_all add: decode_utf8_ignore_def utf8_step_def or_default_def)
  have al: "chars_uploaded_for_project_in_period ''t1'' ''p1''
              (current_period_start ex_subscription) (current_period_end ex_subscription)
              (usage_daily ?w) = 9"
    and al': "chars_uploaded_for_project_in_period ''t1'' ''p1'' 10 40 (usage_daily ?w) = 9"
    by (simp_all add: chars_for_project_sum ex_subscription_def ex_world_def ex_usage_def)
  have cap: "monthly_upload_char_cap ex_plan = 10" by (simp add: ex_plan_def)
  have up: "upload_files_to_openai ex_ext (snd (read_files ?small 0 [])) = Inr [''a.txt'']"
    unfolding ps by (simp add: ex_ext_def)
  have at: "attach_files_batch ex_ext ''vs1'' [''a.txt'']
      = Inr \<lparr>batch_status = Some ''completed'', batch_file_counts = None\<rparr>"
    by (simp add: ex_ext_def)
  note big = upload_gate [where files = ?big and today = 12 and tid = "''t1''" and pid = "''p1''",
      OF _ ex_uuid ex_rate_ok ex_project_found pr ex_subscribed]
  note small = upload_gate [where files = ?small and today = 12 and tid = "''t1''"
      and pid = "''p1''" and s = 10 and e = 40 and ids = "[''a.txt'']"
      and b = "\<lparr>batch_status = Some ''completed'', batch_file_counts = None\<rparr>",
      OF _ ex_uuid ex_rate_ok ex_project_found pr ex_subscribed]
  have 1: "upload_and_attach ex_cfg ex_ext 125 12 ''t1'' ''t1'' ''p1'' ?big ?w
     = (Inl (HTTPException 402
          ''Upload character cap exceeded for this billing period. Upgrade your plan.''),
        ?w\<lparr>redis := [RL ''t1'' 2 \<mapsto> (1, Some 185)]\<rparr>)"
    using big[of "[ex_usage 0 9]"] unfolding al nb cap by simp
  have 2: "chars_uploaded_for_project_in_period ''t1'' ''p1'' 10 40
        (usage_daily (snd (upload_and_attach ex_cfg ex_ext 125 12 ''t1'' ''t1'' ''p1'' ?small ?w)))
     = 10"
    using small[of "[ex_usage 0 9]"] up at unfolding al al' ns cap by simp
  show ?thesis using 1 2 by simp
qed

section \<open>Idempotency across the handlers\<close>










end
